theory Spec2Isabelle
  imports Complex_Main
begin

section \<open>Tensors and the framework operations the models call\<close>

text \<open>
  A tensor is its element type, its shape and its entries in row-major order, as a
  contiguous \<^verbatim>\<open>torch.Tensor\<close> stores them. The element type is the one the framework
  gives the parameters (\<open>Float32\<close>) or one of those a caller's numbers arrive in. It
  decides which operations accept the tensor. The entries themselves are mathematical
  reals: the rounding of floating point is not part of this model. The properties proved
  below are about shapes, element types, exceptions and which operations are applied to
  which entries; where a value is written out, it is the exact one.
\<close>

datatype dtype = Float32 | Float64 | Int64

datatype tensor = Tensor (dtype: dtype) (shape: "nat list") (data: "real list")

text \<open>What \<^verbatim>\<open>.detach().numpy()\<close> returns: a NumPy array, not a tensor.\<close>

datatype ndarray = NdArray (nd_dtype: dtype) (nd_shape: "nat list") (nd_data: "real list")

text \<open>The exceptions that the code raises, or that an indexing or a framework call raises for it.\<close>

datatype error =
    ValueError nat int          \<comment> \<open>\<open>predict_layer\<close>: the hidden layer count and the index requested\<close>
  | NotImplementedError_dataset string  \<comment> \<open>\<open>LoadModel\<close>: data set not supported for this model\<close>
  | NotImplementedError_training        \<comment> \<open>\<open>LoadModel\<close>: training from scratch not supported\<close>
  | KeyError string             \<comment> \<open>a dictionary has no such key\<close>
  | IndexError                  \<comment> \<open>an index beyond a dimension, or too many indices\<close>
  | StopIteration               \<comment> \<open>\<open>next\<close> on an exhausted iterator\<close>
  | RuntimeError_dtype dtype dtype      \<comment> \<open>\<open>F.linear\<close>: element type of the input against the weight's\<close>
  | RuntimeError_shape "nat list" nat   \<comment> \<open>\<open>F.linear\<close>: input shape against \<open>in_features\<close>\<close>
  | RuntimeError_state_dict     \<comment> \<open>\<open>load_state_dict\<close>: missing, unexpected or mis-shaped entry\<close>
  | UnboundLocalError           \<comment> \<open>a local variable read before any assignment\<close>
  | RequestException string     \<comment> \<open>raised inside \<open>requests.get\<close>\<close>
  | UnpicklingError string      \<comment> \<open>raised inside \<open>torch.load\<close>\<close>

text \<open>The \<open>n\<close> consecutive rows of width \<open>k\<close> of a row-major list.\<close>

definition rows :: "nat \<Rightarrow> nat \<Rightarrow> 'a list \<Rightarrow> 'a list list" where
  "rows n k xs = map (\<lambda>i. take k (drop (i * k) xs)) [0..<n]"

text \<open>The rows of a tensor along its last dimension (\<^verbatim>\<open>dim=-1\<close>); a 0-dimensional
  tensor is one row of one entry.\<close>

definition last_dim :: "nat list \<Rightarrow> nat" where
  "last_dim s = (if s = [] then 1 else last s)"

definition tensor_rows :: "tensor \<Rightarrow> real list list" where
  "tensor_rows t = rows (prod_list (butlast (shape t))) (last_dim (shape t)) (data t)"

subsection \<open>\<^verbatim>\<open>nn.Linear\<close>\<close>

record Linear =
  in_features :: nat
  out_features :: nat
  weight :: tensor    \<comment> \<open>shape \<open>(out_features, in_features)\<close>\<close>
  bias :: tensor      \<comment> \<open>shape \<open>(out_features)\<close>\<close>

text \<open>
  \<^verbatim>\<open>nn.Linear(in_features, out_features)\<close> allocates both parameters as float32
  tensors with the shapes above and fills them with values drawn at random. The values
  drawn are the third argument: entry \<open>i\<close> of the weight is \<open>fst init i\<close>, entry \<open>j\<close> of
  the bias \<open>snd init j\<close>.
\<close>

type_synonym initial_values = "(nat \<Rightarrow> real) \<times> (nat \<Rightarrow> real)"

definition nn_Linear :: "nat \<Rightarrow> nat \<Rightarrow> initial_values \<Rightarrow> Linear" where
  "nn_Linear n_in n_out init =
     \<lparr> in_features = n_in, out_features = n_out,
       weight = Tensor Float32 [n_out, n_in] (map (fst init) [0..<n_out * n_in]),
       bias = Tensor Float32 [n_out] (map (snd init) [0..<n_out]) \<rparr>"

definition dot :: "real list \<Rightarrow> real list \<Rightarrow> real" where
  "dot u v = sum_list (map2 (*) u v)"

text \<open>One input row through the affine map: entry \<open>j\<close> is \<open>row \<bullet> W\<^sub>j + b\<^sub>j\<close>.\<close>

definition affine_row :: "Linear \<Rightarrow> real list \<Rightarrow> real list" where
  "affine_row l r =
     map2 (\<lambda>w b. dot r w + b)
       (rows (out_features l) (in_features l) (data (weight l)))
       (data (bias l))"

text \<open>
  \<^verbatim>\<open>Linear.forward(x) = F.linear(x, weight, bias)\<close>: \<open>x\<close> must have the element type of
  the weight, at least one dimension, and \<open>in_features\<close> as its last one; the affine map
  is applied to every row. Both failures are a \<^verbatim>\<open>RuntimeError\<close> in the framework.
\<close>

definition Linear_forward :: "Linear \<Rightarrow> tensor \<Rightarrow> error + tensor" where
  "Linear_forward l x =
     (if dtype x \<noteq> dtype (weight l)
      then Inl (RuntimeError_dtype (dtype x) (dtype (weight l)))
      else if shape x = [] \<or> last (shape x) \<noteq> in_features l
      then Inl (RuntimeError_shape (shape x) (in_features l))
      else Inr (Tensor (dtype x) (butlast (shape x) @ [out_features l])
                  (concat (map (affine_row l) (tensor_rows x)))))"

subsection \<open>\<^verbatim>\<open>F.softmax(_, dim=-1)\<close>, \<^verbatim>\<open>torch.squeeze\<close>, indexing, subtraction\<close>

text \<open>The softmax is only ever applied to what an affine layer returns, a tensor of the
  weight's floating-point type, which it keeps.\<close>

definition softmax_row :: "real list \<Rightarrow> real list" where
  "softmax_row r = map (\<lambda>v. exp v / sum_list (map exp r)) r"

definition softmax :: "tensor \<Rightarrow> tensor" where
  "softmax t = Tensor (dtype t) (shape t) (concat (map softmax_row (tensor_rows t)))"

text \<open>\<^verbatim>\<open>torch.squeeze(t)\<close> with no \<open>dim\<close>: every dimension of size 1 is removed; the
  element type and the entries stay.\<close>

definition squeeze :: "tensor \<Rightarrow> tensor" where
  "squeeze t = Tensor (dtype t) (filter (\<lambda>d. d \<noteq> 1) (shape t)) (data t)"

text \<open>\<^verbatim>\<open>t[i, :]\<close> for a literal \<open>i \<ge> 0\<close>: the tensor needs two dimensions at least, and
  \<open>i\<close> must lie within the first.\<close>

definition select_row :: "tensor \<Rightarrow> nat \<Rightarrow> error + tensor" where
  "select_row t i =
     (case shape t of
        d0 # d1 # ds \<Rightarrow>
          if i < d0
          then Inr (Tensor (dtype t) (d1 # ds)
                      (take (prod_list (d1 # ds)) (drop (i * prod_list (d1 # ds)) (data t))))
          else Inl IndexError
      | _ \<Rightarrow> Inl IndexError)"

text \<open>\<^verbatim>\<open>a - b\<close> for two tensors of one shape and one element type (the only use in
  this program).\<close>

definition tensor_sub :: "tensor \<Rightarrow> tensor \<Rightarrow> tensor" where
  "tensor_sub a b = Tensor (dtype a) (shape a) (map2 (-) (data a) (data b))"

definition numpy :: "tensor \<Rightarrow> ndarray" where
  "numpy t = NdArray (dtype t) (shape t) (data t)"

text \<open>\<^verbatim>\<open>torch.from_numpy(a)\<close> keeps the array's element type and shape.\<close>

definition from_numpy :: "ndarray \<Rightarrow> tensor" where
  "from_numpy a = Tensor (nd_dtype a) (nd_shape a) (nd_data a)"

text \<open>\<^verbatim>\<open>t.float()\<close>: the same tensor with element type float32.\<close>

definition float :: "tensor \<Rightarrow> tensor" where
  "float t = Tensor Float32 (shape t) (data t)"

text \<open>
  The argument of the \<open>predict\<close> methods is "torch or list": a tensor, or something
  \<^verbatim>\<open>np.array\<close> turns into an array, given here as that array.
\<close>

datatype array_like = is_tensor tensor | not_tensor ndarray

section \<open>\<^verbatim>\<open>LogisticRegression\<close>\<close>

record LogisticRegression =
  input_dim :: nat
  n_class :: nat
  linear :: Linear

definition LogisticRegression_init :: "nat \<Rightarrow> nat \<Rightarrow> initial_values \<Rightarrow> LogisticRegression" where
  "LogisticRegression_init d c init =
     \<lparr> input_dim = d, n_class = c, linear = nn_Linear d c init \<rparr>"

definition return_ground_truth_importance :: "LogisticRegression \<Rightarrow> error + tensor" where
  "return_ground_truth_importance m =
     (case select_row (weight (linear m)) 1 of
        Inl e \<Rightarrow> Inl e
      | Inr r1 \<Rightarrow>
          (case select_row (weight (linear m)) 0 of
             Inl e \<Rightarrow> Inl e
           | Inr r0 \<Rightarrow> Inr (tensor_sub r1 r0)))"

definition LogisticRegression_forward :: "LogisticRegression \<Rightarrow> tensor \<Rightarrow> error + tensor" where
  "LogisticRegression_forward m x =
     (case Linear_forward (linear m) x of
        Inl e \<Rightarrow> Inl e
      | Inr z \<Rightarrow> Inr (softmax z))"

definition LogisticRegression_predict_with_logits ::
    "LogisticRegression \<Rightarrow> tensor \<Rightarrow> error + tensor" where
  "LogisticRegression_predict_with_logits m x = Linear_forward (linear m) x"

definition LogisticRegression_predict ::
    "LogisticRegression \<Rightarrow> array_like \<Rightarrow> error + ndarray" where
  "LogisticRegression_predict m d =
     (let input = (case d of not_tensor a \<Rightarrow> float (from_numpy a) | is_tensor t \<Rightarrow> squeeze t)
      in case LogisticRegression_forward m input of
           Inl e \<Rightarrow> Inl e
         | Inr output \<Rightarrow> Inr (numpy output))"

section \<open>\<^verbatim>\<open>ArtificialNeuralNetwork\<close>\<close>

datatype activation = ReLU | LeakyReLU | Sigmoid | Tanh

definition activation_functions :: "string \<rightharpoonup> activation" where
  "activation_functions =
     map_of [(''relu'', ReLU), (''leaky_relu'', LeakyReLU),
             (''sigmoid'', Sigmoid), (''tanh'', Tanh)]"

text \<open>The element-wise function of each activation module, with the framework's default
  negative slope for \<^verbatim>\<open>nn.LeakyReLU\<close>.\<close>

fun activation_fn :: "activation \<Rightarrow> real \<Rightarrow> real" where
  "activation_fn ReLU v = max 0 v"
| "activation_fn LeakyReLU v = max 0 v + 0.01 * min 0 v"
| "activation_fn Sigmoid v = 1 / (1 + exp (- v))"
| "activation_fn Tanh v = tanh v"

text \<open>The members of the \<^verbatim>\<open>nn.Sequential\<close>: affine layers and activation modules. In
  the networks this program builds an activation module follows an affine layer, so what
  it is applied to is a tensor of the weight's floating-point type, which it keeps.\<close>

datatype module = Lin Linear | Act activation

fun module_forward :: "module \<Rightarrow> tensor \<Rightarrow> error + tensor" where
  "module_forward (Lin l) x = Linear_forward l x"
| "module_forward (Act a) x =
     Inr (Tensor (dtype x) (shape x) (map (activation_fn a) (data x)))"

text \<open>\<^verbatim>\<open>nn.Sequential.forward\<close>: each module in turn; an exception ends the run.\<close>

fun Sequential_forward :: "module list \<Rightarrow> tensor \<Rightarrow> error + tensor" where
  "Sequential_forward [] x = Inr x"
| "Sequential_forward (m # ms) x =
     (case module_forward m x of
        Inl e \<Rightarrow> Inl e
      | Inr y \<Rightarrow> Sequential_forward ms y)"

text \<open>
  Python's slices \<^verbatim>\<open>xs[:n]\<close> and \<^verbatim>\<open>xs[n:]\<close>, which is what slicing an \<^verbatim>\<open>nn.Sequential\<close>
  does to its list of modules: a negative bound counts from the end, and a bound outside
  the list is clamped.
\<close>

definition slice_to :: "'a list \<Rightarrow> int \<Rightarrow> 'a list" where
  "slice_to xs n = take (nat (if n < 0 then int (length xs) + n else n)) xs"

definition slice_from :: "'a list \<Rightarrow> int \<Rightarrow> 'a list" where
  "slice_from xs n = drop (nat (if n < 0 then int (length xs) + n else n)) xs"

record ArtificialNeuralNetwork =
  network :: "module list"

text \<open>
  The constructor's loop over \<open>hidden_layers\<close>, with \<open>model_layers\<close> and \<open>previous_layer\<close>
  as they stand before the iteration. The activation is looked up in every iteration, so
  an unknown name raises only when there is a hidden layer. The affine layer appended at
  position \<open>p\<close> of the network takes its initial values from \<open>inits p\<close>.
\<close>

fun init_loop ::
    "string \<Rightarrow> (nat \<Rightarrow> initial_values) \<Rightarrow> nat list \<Rightarrow> module list \<Rightarrow> nat
       \<Rightarrow> error + (module list \<times> nat)" where
  "init_loop activation inits [] model_layers previous_layer =
     Inr (model_layers, previous_layer)"
| "init_loop activation inits (layer # hidden_layers) model_layers previous_layer =
     (case activation_functions activation of
        None \<Rightarrow> Inl (KeyError activation)
      | Some a \<Rightarrow>
          init_loop activation inits hidden_layers
            (model_layers @
               [Lin (nn_Linear previous_layer layer (inits (length model_layers))), Act a])
            layer)"

definition ArtificialNeuralNetwork_init ::
    "nat \<Rightarrow> nat list \<Rightarrow> nat \<Rightarrow> string \<Rightarrow> (nat \<Rightarrow> initial_values)
       \<Rightarrow> error + ArtificialNeuralNetwork" where
  "ArtificialNeuralNetwork_init d hidden_layers c activation inits =
     (case init_loop activation inits hidden_layers [] d of
        Inl e \<Rightarrow> Inl e
      | Inr (model_layers, previous_layer) \<Rightarrow>
          Inr \<lparr> network =
                  model_layers @
                    [Lin (nn_Linear previous_layer c (inits (length model_layers)))] \<rparr>)"

definition predict_layer ::
    "ArtificialNeuralNetwork \<Rightarrow> tensor \<Rightarrow> int \<Rightarrow> bool \<Rightarrow> error + tensor" where
  "predict_layer m x hidden_layer_idx post_act =
     (if hidden_layer_idx \<ge> int (length (network m) div 2)
      then Inl (ValueError (length (network m) div 2) hidden_layer_idx)
      else
        let network_idx = 2 * hidden_layer_idx + (if post_act then 1 else 0)
        in Sequential_forward (slice_to (network m) (network_idx + 1)) x)"

definition ArtificialNeuralNetwork_forward ::
    "ArtificialNeuralNetwork \<Rightarrow> tensor \<Rightarrow> error + tensor" where
  "ArtificialNeuralNetwork_forward m x =
     (case Sequential_forward (network m) x of
        Inl e \<Rightarrow> Inl e
      | Inr z \<Rightarrow> Inr (softmax z))"

definition ArtificialNeuralNetwork_predict_with_logits ::
    "ArtificialNeuralNetwork \<Rightarrow> tensor \<Rightarrow> error + tensor" where
  "ArtificialNeuralNetwork_predict_with_logits m x = Sequential_forward (network m) x"

definition predict_proba :: "ArtificialNeuralNetwork \<Rightarrow> array_like \<Rightarrow> error + ndarray" where
  "predict_proba m x =
     (let input = (case x of is_tensor t \<Rightarrow> t | not_tensor a \<Rightarrow> from_numpy a)
      in case ArtificialNeuralNetwork_forward m (float input) of
           Inl e \<Rightarrow> Inl e
         | Inr output \<Rightarrow> Inr (numpy output))"

definition ArtificialNeuralNetwork_predict ::
    "ArtificialNeuralNetwork \<Rightarrow> array_like \<Rightarrow> error + ndarray" where
  "ArtificialNeuralNetwork_predict m x =
     (let input = (case x of is_tensor t \<Rightarrow> squeeze t | not_tensor a \<Rightarrow> from_numpy a)
      in case ArtificialNeuralNetwork_forward m (float input) of
           Inl e \<Rightarrow> Inl e
         | Inr output \<Rightarrow> Inr (numpy output))"

section \<open>\<^verbatim>\<open>LoadModel\<close>\<close>

definition dataverse_prefix :: string where
  "dataverse_prefix = ''https://dataverse.harvard.edu/api/access/datafile/''"

definition dataverse_ids :: "(string \<times> (string \<times> string) list) list" where
  "dataverse_ids =
     [(''lr'',
         [(''adult'', ''8550955''), (''compas'', ''8550949''), (''gaussian'', ''8550960''),
          (''german'', ''8550945''), (''gmsc'', ''8550948''), (''heart'', ''8550956''),
          (''heloc'', ''8550950''), (''pima'', ''8550959'')]),
      (''ann'',
         [(''adult'', ''8550958''), (''compas'', ''8550951''), (''gaussian'', ''8550957''),
          (''german'', ''8550946''), (''gmsc'', ''8550947''), (''heart'', ''8550954''),
          (''heloc'', ''8550952''), (''pima'', ''8550953'')])]"

type_synonym bytes = string

text \<open>An ordered dictionary from parameter names to tensors.\<close>

type_synonym state_dict = "(string \<times> tensor) list"

text \<open>
  What \<open>LoadModel\<close> calls outside this program: the HTTP request (the body of the
  response, or the exception's message), the deserialiser behind \<^verbatim>\<open>torch.load\<close>, and
  the random values the constructors draw.
\<close>

record collaborators =
  requests_get :: "string \<Rightarrow> string + bytes"
  torch_load :: "bytes \<Rightarrow> string + state_dict"
  random_values :: "nat \<Rightarrow> initial_values"

text \<open>The part of the file system \<open>LoadModel\<close> touches.\<close>

record filesystem =
  dirs :: "string set"
  files :: "string \<rightharpoonup> bytes"

datatype model = LR LogisticRegression | ANN ArtificialNeuralNetwork

text \<open>\<^verbatim>\<open>str.upper\<close> on ASCII letters.\<close>

definition upper :: "string \<Rightarrow> string" where
  "upper s =
     map (\<lambda>c. let n = (of_char c :: nat)
               in if 97 \<le> n \<and> n \<le> 122 then char_of (n - 32) else c) s"

fun digits :: "nat \<Rightarrow> string" where
  "digits n =
     (if n < 10 then [char_of (48 + n)] else digits (n div 10) @ [char_of (48 + n mod 10)])"

declare digits.simps [simp del]

text \<open>
  \<^verbatim>\<open>load_state_dict\<close> in its default strict mode. One parameter is taken from the
  dictionary if it is there under its name with the shape of the slot it goes to; its
  entries are copied into the slot, which keeps its own element type.
\<close>

definition copy_into :: "tensor \<Rightarrow> tensor \<Rightarrow> tensor" where
  "copy_into param input_param = Tensor (dtype param) (shape param) (data input_param)"

definition load_parameter :: "state_dict \<Rightarrow> string \<Rightarrow> nat list \<Rightarrow> error + tensor" where
  "load_parameter sd name expected =
     (case map_of sd name of
        None \<Rightarrow> Inl RuntimeError_state_dict
      | Some t \<Rightarrow> if shape t = expected then Inr t else Inl RuntimeError_state_dict)"

definition load_Linear :: "state_dict \<Rightarrow> string \<Rightarrow> Linear \<Rightarrow> error + Linear" where
  "load_Linear sd prefix l =
     (case load_parameter sd (prefix @ ''.weight'') (shape (weight l)) of
        Inl e \<Rightarrow> Inl e
      | Inr w \<Rightarrow>
          (case load_parameter sd (prefix @ ''.bias'') (shape (bias l)) of
             Inl e \<Rightarrow> Inl e
           | Inr b \<Rightarrow> Inr (l\<lparr>weight := copy_into (weight l) w, bias := copy_into (bias l) b\<rparr>)))"

text \<open>The modules of a network from position \<open>p\<close> on, the affine ones loaded under the
  names \<^verbatim>\<open>network.<position>.weight\<close> and \<^verbatim>\<open>network.<position>.bias\<close>.\<close>

fun load_modules :: "state_dict \<Rightarrow> nat \<Rightarrow> module list \<Rightarrow> error + module list" where
  "load_modules sd p [] = Inr []"
| "load_modules sd p (Act a # ms) =
     (case load_modules sd (Suc p) ms of
        Inl e \<Rightarrow> Inl e
      | Inr ms' \<Rightarrow> Inr (Act a # ms'))"
| "load_modules sd p (Lin l # ms) =
     (case load_Linear sd (''network.'' @ digits p) l of
        Inl e \<Rightarrow> Inl e
      | Inr l' \<Rightarrow>
          (case load_modules sd (Suc p) ms of
             Inl e \<Rightarrow> Inl e
           | Inr ms' \<Rightarrow> Inr (Lin l' # ms')))"

text \<open>The names a model's own \<^verbatim>\<open>state_dict()\<close> has; any other key is unexpected.\<close>

fun module_keys :: "nat \<Rightarrow> module list \<Rightarrow> string list" where
  "module_keys p [] = []"
| "module_keys p (Act a # ms) = module_keys (Suc p) ms"
| "module_keys p (Lin l # ms) =
     (''network.'' @ digits p @ ''.weight'') # (''network.'' @ digits p @ ''.bias'')
       # module_keys (Suc p) ms"

fun state_dict_keys :: "model \<Rightarrow> string list" where
  "state_dict_keys (LR m) = [''linear.weight'', ''linear.bias'']"
| "state_dict_keys (ANN m) = module_keys 0 (network m)"

definition load_state_dict :: "model \<Rightarrow> state_dict \<Rightarrow> error + model" where
  "load_state_dict m sd =
     (if \<not> set (map fst sd) \<subseteq> set (state_dict_keys m) then Inl RuntimeError_state_dict
      else
        case m of
          LR lr \<Rightarrow>
            (case load_Linear sd ''linear'' (linear lr) of
               Inl e \<Rightarrow> Inl e
             | Inr l \<Rightarrow> Inr (LR (lr\<lparr>linear := l\<rparr>)))
        | ANN ann \<Rightarrow>
            (case load_modules sd 0 (network ann) of
               Inl e \<Rightarrow> Inl e
             | Inr ms \<Rightarrow> Inr (ANN (ann\<lparr>network := ms\<rparr>))))"

text \<open>\<^verbatim>\<open>next(iter(state_dict.values())).shape[1]\<close>.\<close>

definition first_shape_1 :: "state_dict \<Rightarrow> error + nat" where
  "first_shape_1 sd =
     (case sd of
        [] \<Rightarrow> Inl StopIteration
      | (name, t) # rest \<Rightarrow>
          (case shape t of
             d0 # d1 # ds \<Rightarrow> Inr d1
           | _ \<Rightarrow> Inl IndexError))"

text \<open>The two branches that construct the model; with any other \<open>ml_model\<close> the variable
  \<open>model\<close> would be unbound where it is next read.\<close>

definition construct :: "collaborators \<Rightarrow> string \<Rightarrow> nat \<Rightarrow> error + model" where
  "construct c ml_model num_features =
     (if ml_model = ''ann'' then
        (case ArtificialNeuralNetwork_init num_features [100, 100] 2 ''relu'' (random_values c) of
           Inl e \<Rightarrow> Inl e
         | Inr m \<Rightarrow> Inr (ANN m))
      else if ml_model = ''lr'' then
        Inr (LR (LogisticRegression_init num_features 2 (random_values c 0)))
      else Inl UnboundLocalError)"

text \<open>
  \<open>LoadModel\<close> returns the model or the exception, and the file system as it leaves it:
  the directory is made before anything is looked up, the downloaded file is written
  before it is deserialised. \<^verbatim>\<open>torch.load\<close> reads back the file just written, so it
  is given the downloaded bytes.
\<close>

definition LoadModel ::
    "collaborators \<Rightarrow> string \<Rightarrow> string \<Rightarrow> bool \<Rightarrow> filesystem \<Rightarrow> (error + model) \<times> filesystem" where
  "LoadModel c data_name ml_model pretrained fs =
     (if pretrained then
        let model_path = ''./models/pretrained/'';
            fs1 = fs\<lparr>dirs := insert model_path (dirs fs)\<rparr>
        in case map_of dataverse_ids ml_model of
             None \<Rightarrow> (Inl (KeyError ml_model), fs1)
           | Some ids \<Rightarrow>
               (case map_of ids data_name of
                  None \<Rightarrow> (Inl (NotImplementedError_dataset (upper ml_model)), fs1)
                | Some ident \<Rightarrow>
                    (case requests_get c (dataverse_prefix @ ident) of
                       Inl msg \<Rightarrow> (Inl (RequestException msg), fs1)
                     | Inr content \<Rightarrow>
                         let model_filename = ml_model @ ''_'' @ data_name @ ''.pt'';
                             fs2 = fs1\<lparr>files := (files fs1)(model_path @ model_filename \<mapsto> content)\<rparr>
                         in (case torch_load c content of
                               Inl msg \<Rightarrow> (Inl (UnpicklingError msg), fs2)
                             | Inr state_dict \<Rightarrow>
                                 (case first_shape_1 state_dict of
                                    Inl e \<Rightarrow> (Inl e, fs2)
                                  | Inr num_features \<Rightarrow>
                                      (case construct c ml_model num_features of
                                         Inl e \<Rightarrow> (Inl e, fs2)
                                       | Inr m \<Rightarrow> (load_state_dict m state_dict, fs2))))))
      else (Inl NotImplementedError_training, fs))"

section \<open>Definitions used to state the properties\<close>

text \<open>
  The widths of a module list fit together from an input of width \<open>d\<close> on: every
  affine layer has float32 weights and takes what the modules before it deliver.
\<close>

fun chained :: "nat \<Rightarrow> module list \<Rightarrow> bool" where
  "chained d [] = True"
| "chained d (Lin l # ms) =
     (dtype (weight l) = Float32 \<and> in_features l = d \<and> chained (out_features l) ms)"
| "chained d (Act a # ms) = chained d ms"

fun width_after :: "nat \<Rightarrow> module list \<Rightarrow> nat" where
  "width_after d [] = d"
| "width_after d (Lin l # ms) = width_after (out_features l) ms"
| "width_after d (Act a # ms) = width_after d ms"

text \<open>
  The specification's \<open>predict\<close> of the linear classifier, from its words and not from
  the code: the argument, tensor or array-like, is taken into the model's own tensor
  representation (float32), loses a single leading batch dimension of size 1 and nothing
  else, then goes through \<open>forward\<close>, and the result is handed back as a plain array.
\<close>

definition squeeze_leading :: "tensor \<Rightarrow> tensor" where
  "squeeze_leading t =
     (case shape t of
        d0 # d1 # ds \<Rightarrow> if d0 = 1 then Tensor (dtype t) (d1 # ds) (data t) else t
      | _ \<Rightarrow> t)"

definition predict_as_specified :: "LogisticRegression \<Rightarrow> array_like \<Rightarrow> error + ndarray" where
  "predict_as_specified m d =
     (let input =
            squeeze_leading (float (case d of not_tensor a \<Rightarrow> from_numpy a | is_tensor t \<Rightarrow> t))
      in case LogisticRegression_forward m input of
           Inl e \<Rightarrow> Inl e
         | Inr output \<Rightarrow> Inr (numpy output))"

section \<open>Rows of a row-major list\<close>

lemma rows_1: "rows (Suc 0) k xs = [take k xs]"
  by (simp add: rows_def)

lemma rows_2: "rows 2 k xs = [take k xs, take k (drop k xs)]"
  by (simp add: rows_def numeral_2_eq_2)

lemma rows_nth: "i < n \<Longrightarrow> rows n k xs ! i = take k (drop (i * k) xs)"
  by (simp add: rows_def)

section \<open>The linear classifier\<close>

lemma select_row_matrix:
  "i < r \<Longrightarrow>
     select_row (Tensor ty [r, k] xs) i = Inr (Tensor ty [k] (tensor_rows (Tensor ty [r, k] xs) ! i))"
  by (simp add: select_row_def tensor_rows_def last_dim_def rows_nth)

text \<open>
  C5. A \<open>LogisticRegression\<close> constructed with two classes and any \<open>input_dim\<close>:
  \<open>return_ground_truth_importance\<close> returns a vector of length \<open>input_dim\<close>, which is
  row 1 of the weight matrix minus its row 0, entry by entry.
\<close>

theorem ground_truth_importance_binary:
  "return_ground_truth_importance (LogisticRegression_init d 2 init) =
     Inr (Tensor Float32 [d]
            (map2 (-) (tensor_rows (weight (linear (LogisticRegression_init d 2 init))) ! 1)
                      (tensor_rows (weight (linear (LogisticRegression_init d 2 init))) ! 0)))
   \<and> return_ground_truth_importance (LogisticRegression_init d 2 init) =
     Inr (Tensor Float32 [d] (map (\<lambda>i. fst init (d + i) - fst init i) [0..<d]))
   \<and> length (tensor_rows (weight (linear (LogisticRegression_init d 2 init)))) = 2"
proof -
  let ?W = "weight (linear (LogisticRegression_init d 2 init))"
  have W: "?W = Tensor Float32 [2, d] (map (fst init) [0..<2 * d])"
    by (simp add: LogisticRegression_init_def nn_Linear_def)
  have r1: "tensor_rows ?W ! 1 = map (fst init) [d..<2 * d]"
    by (simp add: W tensor_rows_def last_dim_def rows_nth take_map drop_map)
  have r0: "tensor_rows ?W ! 0 = map (fst init) [0..<d]"
    by (simp add: W tensor_rows_def last_dim_def rows_nth take_map drop_map)
  have sub: "map2 (-) (map (fst init) [d..<2 * d]) (map (fst init) [0..<d])
      = map (\<lambda>i. fst init (d + i) - fst init i) [0..<d]"
    by (rule nth_equalityI) simp_all
  have g: "return_ground_truth_importance (LogisticRegression_init d 2 init) =
     Inr (Tensor Float32 [d] (map2 (-) (tensor_rows ?W ! 1) (tensor_rows ?W ! 0)))"
    unfolding return_ground_truth_importance_def W
    by (simp add: select_row_matrix tensor_sub_def)
  have len: "length (tensor_rows ?W) = 2"
    by (simp add: W tensor_rows_def rows_def)
  note g' = g [unfolded r1 r0 sub]
  from g g' len show ?thesis by (intro conjI)
qed

section \<open>The multi-layer network\<close>

lemma Sequential_forward_append:
  "Sequential_forward (ms @ ns) x =
     (case Sequential_forward ms x of Inl e \<Rightarrow> Inl e | Inr y \<Rightarrow> Sequential_forward ns y)"
  by (induction ms arbitrary: x) (simp_all split: sum.split)

lemma slice_to_from: "slice_to xs n @ slice_from xs n = xs"
  by (simp add: slice_to_def slice_from_def)

lemma Sequential_forward_not_ValueError: "Sequential_forward ms x \<noteq> Inl (ValueError h j)"
proof (induction ms arbitrary: x)
  case Nil
  show ?case by simp
next
  case (Cons m ms)
  have "module_forward m x \<noteq> Inl (ValueError h j)"
    by (cases m) (simp_all add: Linear_forward_def)
  with Cons show ?case by (auto split: sum.split)
qed

text \<open>
  C1. For every network, every hidden layer index \<open>i\<close> with \<open>0 \<le> i\<close> below the hidden
  layer count and every input \<open>x\<close>: running the remaining modules \<^verbatim>\<open>network[2*i+2:]\<close> on
  what \<open>predict_layer x i True\<close> returns gives exactly \<open>predict_with_logits x\<close>; an
  exception of the prefix is the exception of the whole run.
\<close>

theorem predict_layer_round_trip:
  assumes "0 \<le> i" and "i < int (length (network m) div 2)"
  shows "(case predict_layer m x i True of
            Inl e \<Rightarrow> Inl e
          | Inr h \<Rightarrow> Sequential_forward (slice_from (network m) (2 * i + 2)) h)
         = ArtificialNeuralNetwork_predict_with_logits m x"
proof -
  have "predict_layer m x i True = Sequential_forward (slice_to (network m) (2 * i + 2)) x"
    using assms by (simp add: predict_layer_def add.commute)
  moreover have "Sequential_forward (slice_to (network m) (2 * i + 2) @ slice_from (network m) (2 * i + 2)) x
      = Sequential_forward (network m) x"
    by (simp only: slice_to_from)
  ultimately show ?thesis
    by (simp add: Sequential_forward_append ArtificialNeuralNetwork_predict_with_logits_def)
qed

text \<open>
  C9. The range check of \<open>predict_layer\<close> rejects only indices from the hidden layer
  count up: a negative index passes it and the sliced network is run, so the result is
  never the \<open>ValueError\<close> of the check; index \<open>-1\<close> after activation selects the empty
  prefix and returns the input unchanged.
\<close>

theorem predict_layer_negative_index:
  assumes "idx < 0"
  shows "predict_layer m x idx post_act =
           Sequential_forward (slice_to (network m) (2 * idx + (if post_act then 1 else 0) + 1)) x
         \<and> predict_layer m x idx post_act \<noteq> Inl (ValueError h j)
         \<and> predict_layer m x (- 1) True = Inr x"
proof -
  have "predict_layer m x idx post_act =
      Sequential_forward (slice_to (network m) (2 * idx + (if post_act then 1 else 0) + 1)) x"
    using assms by (simp add: predict_layer_def)
  moreover have "predict_layer m x (- 1) True = Inr x"
    by (simp add: predict_layer_def slice_to_def)
  ultimately show ?thesis
    by (simp add: Sequential_forward_not_ValueError)
qed

lemma chained_append:
  "chained d (ms @ ns) = (chained d ms \<and> chained (width_after d ms) ns)"
  by (induction d ms rule: chained.induct) auto

lemma width_after_append:
  "width_after d (ms @ ns) = width_after (width_after d ms) ns"
  by (induction d ms rule: width_after.induct) auto

lemma chained_take: "chained d ms \<Longrightarrow> chained d (take n ms)"
  by (metis append_take_drop_id chained_append)

lemma chained_forward:
  "chained d ms \<Longrightarrow> dtype x = Float32 \<Longrightarrow> shape x \<noteq> [] \<Longrightarrow> last (shape x) = d \<Longrightarrow>
     \<exists>y. Sequential_forward ms x = Inr y \<and> dtype y = Float32 \<and> shape y \<noteq> []
         \<and> last (shape y) = width_after d ms"
proof (induction d ms arbitrary: x rule: chained.induct)
  case (1 d)
  then show ?case by simp
next
  case (2 d l ms)
  let ?y = "Tensor (dtype x) (butlast (shape x) @ [out_features l])
                  (concat (map (affine_row l) (tensor_rows x)))"
  have "Linear_forward l x = Inr ?y" using 2 by (simp add: Linear_forward_def)
  moreover have "\<exists>z. Sequential_forward ms ?y = Inr z \<and> dtype z = Float32 \<and> shape z \<noteq> [] \<and>
      last (shape z) = width_after (out_features l) ms"
    using 2 by (intro "2.IH") simp_all
  ultimately show ?case by simp
next
  case (3 d a ms)
  let ?y = "Tensor (dtype x) (shape x) (map (activation_fn a) (data x))"
  have "\<exists>z. Sequential_forward ms ?y = Inr z \<and> dtype z = Float32 \<and> shape z \<noteq> [] \<and>
      last (shape z) = width_after d ms"
    using 3 by (intro "3.IH") simp_all
  then show ?case by simp
qed

lemma init_loop_prefix:
  "init_loop act inits hs acc prev = Inr (ml, p) \<Longrightarrow> \<exists>sfx. ml = acc @ sfx"
proof (induction hs arbitrary: acc prev)
  case Nil
  then show ?case by simp
next
  case (Cons h hs)
  from Cons.prems obtain a where "init_loop act inits hs
        (acc @ [Lin (nn_Linear prev h (inits (length acc))), Act a]) h = Inr (ml, p)"
    by (auto split: option.splits)
  from Cons.IH [OF this] show ?case by auto
qed

lemma init_loop_chained:
  "init_loop act inits hs acc prev = Inr (ml, p) \<Longrightarrow> chained d acc \<Longrightarrow> width_after d acc = prev \<Longrightarrow>
     chained d ml \<and> width_after d ml = p \<and> length ml = length acc + 2 * length hs"
proof (induction hs arbitrary: acc prev)
  case Nil
  then show ?case by simp
next
  case (Cons h hs)
  from Cons.prems(1) obtain a where a: "activation_functions act = Some a"
    and rec: "init_loop act inits hs
        (acc @ [Lin (nn_Linear prev h (inits (length acc))), Act a]) h = Inr (ml, p)"
    by (auto split: option.splits)
  have "chained d (acc @ [Lin (nn_Linear prev h (inits (length acc))), Act a])"
    using Cons.prems(2,3) by (simp add: chained_append nn_Linear_def)
  moreover have "width_after d (acc @ [Lin (nn_Linear prev h (inits (length acc))), Act a]) = h"
    by (simp add: width_after_append nn_Linear_def)
  ultimately show ?case using Cons.IH [OF rec] by simp
qed

lemma init_network:
  assumes "ArtificialNeuralNetwork_init d hs c act inits = Inr m"
  shows "chained d (network m)" and "length (network m) = 2 * length hs + 1"
    and "\<exists>l ms. network m = Lin l # ms \<and> dtype (weight l) = Float32 \<and> in_features l = d"
proof -
  from assms obtain ml p where lp: "init_loop act inits hs [] d = Inr (ml, p)"
    and m: "m = \<lparr> network = ml @ [Lin (nn_Linear p c (inits (length ml)))] \<rparr>"
    by (auto simp: ArtificialNeuralNetwork_init_def split: sum.splits)
  from init_loop_chained [OF lp, of d] have "chained d ml" "width_after d ml = p"
    "length ml = 2 * length hs" by simp_all
  then show c: "chained d (network m)" and "length (network m) = 2 * length hs + 1"
    by (simp_all add: m chained_append nn_Linear_def)
  show "\<exists>l ms. network m = Lin l # ms \<and> dtype (weight l) = Float32 \<and> in_features l = d"
  proof (cases hs)
    case Nil
    with lp have "ml = []" "p = d" by simp_all
    then show ?thesis by (simp add: m nn_Linear_def)
  next
    case (Cons h hs')
    with lp obtain a where "init_loop act inits hs'
        ([] @ [Lin (nn_Linear d h (inits (length ([] :: module list)))), Act a]) h = Inr (ml, p)"
      by (auto split: option.splits)
    from init_loop_prefix [OF this] obtain sfx where
      "ml = Lin (nn_Linear d h (inits 0)) # Act a # sfx" by auto
    then show ?thesis by (simp add: m nn_Linear_def)
  qed
qed

text \<open>
  C3. For a network constructed with \<open>H\<close> hidden layers, \<open>predict_layer\<close> raises the
  \<open>ValueError\<close> of its range check, which carries the count \<open>H\<close>, exactly when the index
  is at least \<open>H\<close>. It raises for index \<open>H\<close>, and for index \<open>H - 1\<close> it returns a tensor
  on every float32 input whose last dimension is the network's input width; when there
  is a hidden layer, it returns a tensor on no other input.
\<close>

theorem predict_layer_index_check:
  assumes "ArtificialNeuralNetwork_init d hs c act inits = Inr m"
  shows "length (network m) div 2 = length hs
       \<and> (predict_layer m x idx post_act = Inl (ValueError (length hs) idx)
            \<longleftrightarrow> int (length hs) \<le> idx)
       \<and> (predict_layer m x idx post_act = Inl (ValueError h j) \<longrightarrow> int (length hs) \<le> idx)
       \<and> predict_layer m x (int (length hs)) post_act
            = Inl (ValueError (length hs) (int (length hs)))
       \<and> (dtype x = Float32 \<and> shape x \<noteq> [] \<and> last (shape x) = d \<longrightarrow>
            (\<exists>y. predict_layer m x (int (length hs) - 1) post_act = Inr y))
       \<and> (hs \<noteq> [] \<and> (\<exists>y. predict_layer m x (int (length hs) - 1) post_act = Inr y) \<longrightarrow>
            dtype x = Float32 \<and> shape x \<noteq> [] \<and> last (shape x) = d)"
proof -
  note len = init_network(2) [OF assms]
  have H: "length (network m) div 2 = length hs" by (simp add: len)
  have ge: "int (length hs) \<le> idx \<Longrightarrow>
      predict_layer m x idx post_act = Inl (ValueError (length hs) idx)" for idx
    by (simp add: predict_layer_def H)
  have lt: "predict_layer m x idx post_act = Inl (ValueError h' j') \<Longrightarrow> int (length hs) \<le> idx"
    for h' j'
    by (rule ccontr) (simp add: predict_layer_def H Let_def Sequential_forward_not_ValueError)
  have ok: "\<exists>y. predict_layer m x (int (length hs) - 1) post_act = Inr y"
    if x: "dtype x = Float32" "shape x \<noteq> []" "last (shape x) = d"
  proof -
    have "chained d (slice_to (network m) (2 * (int (length hs) - 1) + (if post_act then 1 else 0) + 1))"
      unfolding slice_to_def by (rule chained_take) (rule init_network(1) [OF assms])
    from chained_forward [OF this x] show ?thesis
      by (auto simp: predict_layer_def H Let_def)
  qed
  have only: "dtype x = Float32 \<and> shape x \<noteq> [] \<and> last (shape x) = d"
    if hs: "hs \<noteq> []" and y: "predict_layer m x (int (length hs) - 1) post_act = Inr y" for y
  proof -
    from init_network(3) [OF assms] obtain l ms where nw: "network m = Lin l # ms"
      and l: "dtype (weight l) = Float32" "in_features l = d" by blast
    from hs have pos: "0 < length hs" by simp
    then have "\<exists>k. nat (2 * (int (length hs) - 1) + (if post_act then 1 else 0) + 1) = Suc k"
      by (cases "length hs") (auto simp: nat_add_distrib intro: exI [of _ "_ :: nat"])
    then obtain k where k: "nat (2 * (int (length hs) - 1) + (if post_act then 1 else 0) + 1) = Suc k" ..
    have "slice_to (network m) (2 * (int (length hs) - 1) + (if post_act then 1 else 0) + 1)
        = Lin l # take k ms"
      using pos k by (simp add: slice_to_def nw)
    with y pos have "Sequential_forward (Lin l # take k ms) x = Inr y"
      by (simp add: predict_layer_def H Let_def)
    then have "\<exists>z. Linear_forward l x = Inr z"
      by (auto split: sum.splits)
    with l show ?thesis
      by (auto simp: Linear_forward_def split: if_splits)
  qed
  from H ge lt ok only show ?thesis by blast
qed

theorem predict_layer_round_trip_witness:
  "(0::int) \<le> 0
   \<and> 0 < int (length (network
        \<lparr> network = [Lin \<lparr> in_features = 2, out_features = 1,
                            weight = Tensor Float32 [1, 2] [1, - 1], bias = Tensor Float32 [1] [0] \<rparr>,
                      Act ReLU,
                      Lin \<lparr> in_features = 1, out_features = 2,
                            weight = Tensor Float32 [2, 1] [1, 2], bias = Tensor Float32 [2] [0, 1] \<rparr>] \<rparr>) div 2)
   \<and> (case predict_layer
        \<lparr> network = [Lin \<lparr> in_features = 2, out_features = 1,
                            weight = Tensor Float32 [1, 2] [1, - 1], bias = Tensor Float32 [1] [0] \<rparr>,
                      Act ReLU,
                      Lin \<lparr> in_features = 1, out_features = 2,
                            weight = Tensor Float32 [2, 1] [1, 2], bias = Tensor Float32 [2] [0, 1] \<rparr>] \<rparr>
        (Tensor Float32 [2] [5, 3]) 0 True of
         Inl e \<Rightarrow> Inl e
       | Inr h \<Rightarrow>
           Sequential_forward
             (slice_from (network
                \<lparr> network = [Lin \<lparr> in_features = 2, out_features = 1,
                                    weight = Tensor Float32 [1, 2] [1, - 1], bias = Tensor Float32 [1] [0] \<rparr>,
                              Act ReLU,
                              Lin \<lparr> in_features = 1, out_features = 2,
                                    weight = Tensor Float32 [2, 1] [1, 2], bias = Tensor Float32 [2] [0, 1] \<rparr>] \<rparr>)
                (2 * 0 + 2)) h)
     = ArtificialNeuralNetwork_predict_with_logits
        \<lparr> network = [Lin \<lparr> in_features = 2, out_features = 1,
                            weight = Tensor Float32 [1, 2] [1, - 1], bias = Tensor Float32 [1] [0] \<rparr>,
                      Act ReLU,
                      Lin \<lparr> in_features = 1, out_features = 2,
                            weight = Tensor Float32 [2, 1] [1, 2], bias = Tensor Float32 [2] [0, 1] \<rparr>] \<rparr>
        (Tensor Float32 [2] [5, 3])
   \<and> ArtificialNeuralNetwork_predict_with_logits
        \<lparr> network = [Lin \<lparr> in_features = 2, out_features = 1,
                            weight = Tensor Float32 [1, 2] [1, - 1], bias = Tensor Float32 [1] [0] \<rparr>,
                      Act ReLU,
                      Lin \<lparr> in_features = 1, out_features = 2,
                            weight = Tensor Float32 [2, 1] [1, 2], bias = Tensor Float32 [2] [0, 1] \<rparr>] \<rparr>
        (Tensor Float32 [2] [5, 3])
     = Inr (Tensor Float32 [2] [2, 5])"
proof -
  let ?m = "\<lparr> network = [Lin \<lparr> in_features = 2, out_features = 1,
                            weight = Tensor Float32 [1, 2] [1, - 1], bias = Tensor Float32 [1] [0] \<rparr>,
                      Act ReLU,
                      Lin \<lparr> in_features = 1, out_features = 2,
                            weight = Tensor Float32 [2, 1] [1, 2], bias = Tensor Float32 [2] [0, 1] \<rparr>] \<rparr>"
  have a: "(0::int) \<le> 0" by simp
  have b: "0 < int (length (network ?m) div 2)" by simp
  have c: "ArtificialNeuralNetwork_predict_with_logits ?m (Tensor Float32 [2] [5, 3])
      = Inr (Tensor Float32 [2] [2, 5])"
    by (simp add: ArtificialNeuralNetwork_predict_with_logits_def Linear_forward_def
        tensor_rows_def last_dim_def affine_row_def dot_def rows_1 rows_2)
  from a b c predict_layer_round_trip [OF a b, of "Tensor Float32 [2] [5, 3]"] show ?thesis
    by (intro conjI)
qed

theorem predict_layer_negative_index_witness:
  "(- 1 :: int) < 0
   \<and> predict_layer
        \<lparr> network = [Lin \<lparr> in_features = 2, out_features = 1,
                            weight = Tensor Float32 [1, 2] [1, - 1], bias = Tensor Float32 [1] [0] \<rparr>,
                      Act ReLU,
                      Lin \<lparr> in_features = 1, out_features = 2,
                            weight = Tensor Float32 [2, 1] [1, 2], bias = Tensor Float32 [2] [0, 1] \<rparr>] \<rparr>
        (Tensor Float32 [7] [1, 2, 3, 4, 5, 6, 7]) (- 1) True
     = Inr (Tensor Float32 [7] [1, 2, 3, 4, 5, 6, 7])
   \<and> predict_layer
        \<lparr> network = [Lin \<lparr> in_features = 2, out_features = 1,
                            weight = Tensor Float32 [1, 2] [1, - 1], bias = Tensor Float32 [1] [0] \<rparr>,
                      Act ReLU,
                      Lin \<lparr> in_features = 1, out_features = 2,
                            weight = Tensor Float32 [2, 1] [1, 2], bias = Tensor Float32 [2] [0, 1] \<rparr>] \<rparr>
        (Tensor Float32 [7] [1, 2, 3, 4, 5, 6, 7]) (- 1) True
     \<noteq> Inl (ValueError 1 (- 1))"
proof -
  let ?m = "\<lparr> network = [Lin \<lparr> in_features = 2, out_features = 1,
                            weight = Tensor Float32 [1, 2] [1, - 1], bias = Tensor Float32 [1] [0] \<rparr>,
                      Act ReLU,
                      Lin \<lparr> in_features = 1, out_features = 2,
                            weight = Tensor Float32 [2, 1] [1, 2], bias = Tensor Float32 [2] [0, 1] \<rparr>] \<rparr>"
  have neg: "(- 1 :: int) < 0" by simp
  from predict_layer_negative_index
    [OF neg, of ?m "Tensor Float32 [7] [1, 2, 3, 4, 5, 6, 7]" True 1 "- 1"]
  have "predict_layer ?m (Tensor Float32 [7] [1, 2, 3, 4, 5, 6, 7]) (- 1) True
          = Inr (Tensor Float32 [7] [1, 2, 3, 4, 5, 6, 7])"
    and "predict_layer ?m (Tensor Float32 [7] [1, 2, 3, 4, 5, 6, 7]) (- 1) True
          \<noteq> Inl (ValueError 1 (- 1))"
    by blast+
  with neg show ?thesis by (intro conjI)
qed

theorem predict_layer_index_check_witness:
  "\<exists>m. ArtificialNeuralNetwork_init 2 [1] 2 ''relu'' (\<lambda>p. (\<lambda>i. 1, \<lambda>j. 0)) = Inr m
     \<and> length (network m) div 2 = 1
     \<and> predict_layer m (Tensor Float32 [2] [5, 3]) 1 True = Inl (ValueError 1 1)
     \<and> dtype (Tensor Float32 [2] [5, 3]) = Float32
     \<and> shape (Tensor Float32 [2] [5, 3]) \<noteq> [] \<and> last (shape (Tensor Float32 [2] [5, 3])) = 2
     \<and> (\<exists>y. predict_layer m (Tensor Float32 [2] [5, 3]) 0 True = Inr y)"
proof -
  obtain m where m: "ArtificialNeuralNetwork_init 2 [1] 2 ''relu'' (\<lambda>p. (\<lambda>i. 1, \<lambda>j. 0)) = Inr m"
    by (simp add: ArtificialNeuralNetwork_init_def activation_functions_def)
  from predict_layer_index_check [OF m, of "Tensor Float32 [2] [5, 3]" 1 True 1 1]
    predict_layer_index_check [OF m, of "Tensor Float32 [2] [5, 3]" 0 True 1 1]
  have "length (network m) div 2 = 1
     \<and> predict_layer m (Tensor Float32 [2] [5, 3]) 1 True = Inl (ValueError 1 1)
     \<and> (\<exists>y. predict_layer m (Tensor Float32 [2] [5, 3]) 0 True = Inr y)"
    by simp
  with m show ?thesis by simp
qed

section \<open>The \<open>predict\<close> methods\<close>

lemma squeeze_no_ones: "1 \<notin> set (shape t) \<Longrightarrow> squeeze t = t"
proof -
  assume "1 \<notin> set (shape t)"
  then have "filter (\<lambda>d. d \<noteq> 1) (shape t) = shape t"
    by (intro filter_True) auto
  then show ?thesis by (simp add: squeeze_def)
qed

text \<open>When removing every dimension of size 1 is removing one leading batch dimension
  of size 1 and nothing else.\<close>

lemma squeeze_is_squeeze_leading:
  "squeeze t = squeeze_leading t \<longleftrightarrow> 1 \<notin> set (tl (shape t)) \<and> shape t \<noteq> [1]"
proof (cases t)
  case (Tensor ty s xs)
  have filter_short: "length (filter (\<lambda>d. d \<noteq> 1) r) < length r" if "1 \<in> set r" for r :: "nat list"
    using that by (intro length_filter_less [of 1]) auto
  show ?thesis
  proof (cases s)
    case Nil
    with Tensor show ?thesis by (simp add: squeeze_def squeeze_leading_def)
  next
    case (Cons d0 r)
    note s = this
    show ?thesis
    proof (cases "1 \<in> set r")
      case True
      from filter_short [OF True] have "filter (\<lambda>d. d \<noteq> 1) r \<noteq> r"
        and "d0 # filter (\<lambda>d. d \<noteq> 1) r \<noteq> d0 # r"
        and "length (filter (\<lambda>d. d \<noteq> 1) r) \<noteq> Suc (length r)"
        by auto
      moreover from True obtain d1 ds where "r = d1 # ds" by (cases r) auto
      ultimately show ?thesis
        using Tensor s True
        by (auto simp: squeeze_def squeeze_leading_def dest: arg_cong [of _ _ length])
    next
      case False
      then have f: "filter (\<lambda>d. d \<noteq> 1) r = r" by (intro filter_True) auto
      show ?thesis
      proof (cases r)
        case Nil
        with Tensor s show ?thesis by (simp add: squeeze_def squeeze_leading_def)
      next
        case (Cons d1 ds)
        with Tensor s f False show ?thesis
          by (auto simp: squeeze_def squeeze_leading_def)
      qed
    qed
  qed
qed

lemma squeeze_leading_id:
  "squeeze_leading t = t \<longleftrightarrow> length (shape t) < 2 \<or> hd (shape t) \<noteq> 1"
proof (cases t)
  case (Tensor ty s xs)
  show ?thesis
  proof (cases s)
    case Nil
    with Tensor show ?thesis by (simp add: squeeze_leading_def)
  next
    case (Cons d0 r)
    with Tensor show ?thesis
      by (cases r) (auto simp: squeeze_leading_def)
  qed
qed

lemma LogisticRegression_forward_Inr:
  "LogisticRegression_forward m x = Inr y \<longleftrightarrow>
     dtype x = dtype (weight (linear m)) \<and> shape x \<noteq> [] \<and> last (shape x) = in_features (linear m)
     \<and> y = softmax (Tensor (dtype x) (butlast (shape x) @ [out_features (linear m)])
                      (concat (map (affine_row (linear m)) (tensor_rows x))))"
  by (auto simp: LogisticRegression_forward_def Linear_forward_def split: sum.splits if_splits)

lemma LogisticRegression_forward_returns:
  "(\<exists>y. LogisticRegression_forward m x = Inr y) \<longleftrightarrow>
     dtype x = dtype (weight (linear m)) \<and> shape x \<noteq> [] \<and> last (shape x) = in_features (linear m)"
  by (simp add: LogisticRegression_forward_def Linear_forward_def)

lemma LogisticRegression_predict_returns:
  "(\<exists>r. LogisticRegression_predict m d = Inr r) \<longleftrightarrow>
     (\<exists>y. LogisticRegression_forward m
            (case d of not_tensor a \<Rightarrow> float (from_numpy a) | is_tensor t \<Rightarrow> squeeze t) = Inr y)"
  by (auto simp: LogisticRegression_predict_def split: sum.splits)

text \<open>
  C2, as the code has it. \<open>LogisticRegression.predict\<close> hands back a NumPy array
  whenever it returns: the array of what \<open>forward\<close> returns on the argument prepared as
  follows, and the exception of \<open>forward\<close> otherwise.

  A tensor argument loses every dimension of size 1 and keeps its element type. The call
  returns exactly when the tensor has the element type of the weights and its squeezed
  shape is not empty and ends in \<open>in_features\<close>; the result has the squeezed shape, with
  the number of classes as last dimension. On a float32 tensor it is what the array of
  the squeezed shape gives.

  An argument that is not a tensor is made a float32 tensor and loses no dimension, a
  leading one of size 1 no more than another. The call returns exactly when the weights
  are float32 and the array's shape is not empty and ends in \<open>in_features\<close>; the result
  keeps every dimension but the last, which is the number of classes.

  Removing every dimension of size 1 is removing one leading batch dimension of size 1
  and nothing else exactly when no dimension after the first is 1 (the shape \<open>(1)\<close>
  apart); leaving an array as it is does so exactly when the array has fewer than two
  dimensions or a first dimension other than 1. On these arguments, float32 for a
  tensor, \<open>predict\<close> returns what the specification's \<open>predict\<close> returns.
\<close>

theorem LogisticRegression_predict_squeeze:
  "LogisticRegression_predict m (is_tensor t)
     = (case LogisticRegression_forward m
               (Tensor (dtype t) (filter (\<lambda>d. d \<noteq> 1) (shape t)) (data t)) of
          Inl e \<Rightarrow> Inl e
        | Inr y \<Rightarrow> Inr (numpy y))
   \<and> LogisticRegression_predict m (not_tensor a)
     = (case LogisticRegression_forward m (Tensor Float32 (nd_shape a) (nd_data a)) of
          Inl e \<Rightarrow> Inl e
        | Inr y \<Rightarrow> Inr (numpy y))
   \<and> ((\<exists>r. LogisticRegression_predict m (is_tensor t) = Inr r) \<longleftrightarrow>
       dtype t = dtype (weight (linear m)) \<and> filter (\<lambda>d. d \<noteq> 1) (shape t) \<noteq> []
       \<and> last (filter (\<lambda>d. d \<noteq> 1) (shape t)) = in_features (linear m))
   \<and> (LogisticRegression_predict m (is_tensor t) = Inr r \<longrightarrow>
        nd_shape r = butlast (filter (\<lambda>d. d \<noteq> 1) (shape t)) @ [out_features (linear m)])
   \<and> (dtype t = Float32 \<longrightarrow>
        LogisticRegression_predict m (is_tensor t)
          = LogisticRegression_predict m
              (not_tensor (NdArray ty (filter (\<lambda>d. d \<noteq> 1) (shape t)) (data t))))
   \<and> ((\<exists>r. LogisticRegression_predict m (not_tensor a) = Inr r) \<longleftrightarrow>
       dtype (weight (linear m)) = Float32 \<and> nd_shape a \<noteq> []
       \<and> last (nd_shape a) = in_features (linear m))
   \<and> (LogisticRegression_predict m (not_tensor a) = Inr r' \<longrightarrow>
        nd_shape r' = butlast (nd_shape a) @ [out_features (linear m)])
   \<and> (squeeze t = squeeze_leading t \<longleftrightarrow> 1 \<notin> set (tl (shape t)) \<and> shape t \<noteq> [1])
   \<and> (squeeze_leading (float (from_numpy a)) = float (from_numpy a) \<longleftrightarrow>
        length (nd_shape a) < 2 \<or> hd (nd_shape a) \<noteq> 1)
   \<and> (dtype t = Float32 \<and> 1 \<notin> set (tl (shape t)) \<and> shape t \<noteq> [1] \<longrightarrow>
        LogisticRegression_predict m (is_tensor t) = predict_as_specified m (is_tensor t))
   \<and> (length (nd_shape a) < 2 \<or> hd (nd_shape a) \<noteq> 1 \<longrightarrow>
        LogisticRegression_predict m (not_tensor a) = predict_as_specified m (not_tensor a))"
proof (intro conjI)
  show "LogisticRegression_predict m (is_tensor t)
     = (case LogisticRegression_forward m
               (Tensor (dtype t) (filter (\<lambda>d. d \<noteq> 1) (shape t)) (data t)) of
          Inl e \<Rightarrow> Inl e
        | Inr y \<Rightarrow> Inr (numpy y))"
    by (simp add: LogisticRegression_predict_def squeeze_def)
  show "LogisticRegression_predict m (not_tensor a)
     = (case LogisticRegression_forward m (Tensor Float32 (nd_shape a) (nd_data a)) of
          Inl e \<Rightarrow> Inl e
        | Inr y \<Rightarrow> Inr (numpy y))"
    by (simp add: LogisticRegression_predict_def from_numpy_def float_def)
  show "(\<exists>r. LogisticRegression_predict m (is_tensor t) = Inr r) \<longleftrightarrow>
       dtype t = dtype (weight (linear m)) \<and> filter (\<lambda>d. d \<noteq> 1) (shape t) \<noteq> []
       \<and> last (filter (\<lambda>d. d \<noteq> 1) (shape t)) = in_features (linear m)"
    unfolding LogisticRegression_predict_returns LogisticRegression_forward_returns
    by (simp add: squeeze_def)
  show "LogisticRegression_predict m (is_tensor t) = Inr r \<longrightarrow>
        nd_shape r = butlast (filter (\<lambda>d. d \<noteq> 1) (shape t)) @ [out_features (linear m)]"
    by (auto simp: LogisticRegression_predict_def squeeze_def LogisticRegression_forward_Inr
        numpy_def softmax_def split: sum.splits)
  show "dtype t = Float32 \<longrightarrow>
        LogisticRegression_predict m (is_tensor t)
          = LogisticRegression_predict m
              (not_tensor (NdArray ty (filter (\<lambda>d. d \<noteq> 1) (shape t)) (data t)))"
    by (simp add: LogisticRegression_predict_def squeeze_def from_numpy_def float_def)
  show "(\<exists>r. LogisticRegression_predict m (not_tensor a) = Inr r) \<longleftrightarrow>
       dtype (weight (linear m)) = Float32 \<and> nd_shape a \<noteq> []
       \<and> last (nd_shape a) = in_features (linear m)"
    unfolding LogisticRegression_predict_returns LogisticRegression_forward_returns
    by (auto simp: from_numpy_def float_def)
  show "LogisticRegression_predict m (not_tensor a) = Inr r' \<longrightarrow>
        nd_shape r' = butlast (nd_shape a) @ [out_features (linear m)]"
    by (auto simp: LogisticRegression_predict_def from_numpy_def float_def
        LogisticRegression_forward_Inr numpy_def softmax_def split: sum.splits)
  show "squeeze t = squeeze_leading t \<longleftrightarrow> 1 \<notin> set (tl (shape t)) \<and> shape t \<noteq> [1]"
    by (rule squeeze_is_squeeze_leading)
  show "squeeze_leading (float (from_numpy a)) = float (from_numpy a) \<longleftrightarrow>
        length (nd_shape a) < 2 \<or> hd (nd_shape a) \<noteq> 1"
    by (simp add: squeeze_leading_id) (simp add: float_def from_numpy_def)
  show "dtype t = Float32 \<and> 1 \<notin> set (tl (shape t)) \<and> shape t \<noteq> [1] \<longrightarrow>
        LogisticRegression_predict m (is_tensor t) = predict_as_specified m (is_tensor t)"
  proof
    assume h: "dtype t = Float32 \<and> 1 \<notin> set (tl (shape t)) \<and> shape t \<noteq> [1]"
    then have "float t = t" by (cases t) (simp add: float_def)
    moreover from h have "squeeze t = squeeze_leading t"
      by (simp add: squeeze_is_squeeze_leading)
    ultimately show "LogisticRegression_predict m (is_tensor t)
        = predict_as_specified m (is_tensor t)"
      by (simp add: LogisticRegression_predict_def predict_as_specified_def)
  qed
  show "length (nd_shape a) < 2 \<or> hd (nd_shape a) \<noteq> 1 \<longrightarrow>
        LogisticRegression_predict m (not_tensor a) = predict_as_specified m (not_tensor a)"
  proof
    assume "length (nd_shape a) < 2 \<or> hd (nd_shape a) \<noteq> 1"
    then have "squeeze_leading (float (from_numpy a)) = float (from_numpy a)"
      by (simp add: squeeze_leading_id) (simp add: float_def from_numpy_def)
    then show "LogisticRegression_predict m (not_tensor a)
        = predict_as_specified m (not_tensor a)"
      by (simp add: LogisticRegression_predict_def predict_as_specified_def)
  qed
qed

theorem LogisticRegression_predict_squeeze_witness:
  "(\<exists>r. LogisticRegression_predict (LogisticRegression_init 2 2 (\<lambda>i. real i, \<lambda>j. 0))
          (is_tensor (Tensor Float32 [1, 2] [3, 4])) = Inr r \<and> nd_shape r = [2])
   \<and> LogisticRegression_predict (LogisticRegression_init 2 2 (\<lambda>i. real i, \<lambda>j. 0))
          (is_tensor (Tensor Float32 [1, 2] [3, 4]))
       = LogisticRegression_predict (LogisticRegression_init 2 2 (\<lambda>i. real i, \<lambda>j. 0))
          (not_tensor (NdArray Float64 [2] [3, 4]))
   \<and> (\<exists>r. LogisticRegression_predict (LogisticRegression_init 2 2 (\<lambda>i. real i, \<lambda>j. 0))
          (not_tensor (NdArray Float64 [1, 2] [3, 4])) = Inr r \<and> nd_shape r = [1, 2])
   \<and> LogisticRegression_predict (LogisticRegression_init 2 2 (\<lambda>i. real i, \<lambda>j. 0))
          (is_tensor (Tensor Float32 [1, 2] [3, 4]))
       = predict_as_specified (LogisticRegression_init 2 2 (\<lambda>i. real i, \<lambda>j. 0))
          (is_tensor (Tensor Float32 [1, 2] [3, 4]))
   \<and> LogisticRegression_predict (LogisticRegression_init 2 2 (\<lambda>i. real i, \<lambda>j. 0))
          (not_tensor (NdArray Float64 [2] [3, 4]))
       = predict_as_specified (LogisticRegression_init 2 2 (\<lambda>i. real i, \<lambda>j. 0))
          (not_tensor (NdArray Float64 [2] [3, 4]))"
proof -
  let ?m = "LogisticRegression_init 2 2 (\<lambda>i. real i, \<lambda>j. 0)"
  let ?t = "Tensor Float32 [1, 2] [3, 4]"
  have m: "dtype (weight (linear ?m)) = Float32" "in_features (linear ?m) = 2"
    "out_features (linear ?m) = 2"
    by (simp_all add: LogisticRegression_init_def nn_Linear_def)
  have t: "dtype ?t = Float32" "filter (\<lambda>d. d \<noteq> 1) (shape ?t) = [2]"
    "1 \<notin> set (tl (shape ?t))" "shape ?t \<noteq> [1]"
    by simp_all
  let ?a = "NdArray Float64 [1, 2] [3, 4]"
  let ?v = "NdArray Float64 [2] [3, 4]"
  note batch = LogisticRegression_predict_squeeze
    [where m = ?m and t = ?t and ty = Float64 and a = ?a,
     THEN conjunct2, THEN conjunct2]
  note single = LogisticRegression_predict_squeeze
    [where m = ?m and t = ?t and ty = Float64 and a = ?v,
     THEN conjunct2, THEN conjunct2]
  have "\<exists>r. LogisticRegression_predict ?m (is_tensor ?t) = Inr r"
    using batch [THEN conjunct1] m t by simp
  then obtain r where r: "LogisticRegression_predict ?m (is_tensor ?t) = Inr r" ..
  from LogisticRegression_predict_squeeze
    [where m = ?m and t = ?t and ty = Float64 and a = ?a and r = r,
     THEN conjunct2, THEN conjunct2, THEN conjunct2, THEN conjunct1, THEN mp, OF r]
  have "nd_shape r = [2]" by (simp add: m)
  with r have 1: "\<exists>r. LogisticRegression_predict ?m (is_tensor ?t) = Inr r \<and> nd_shape r = [2]"
    by blast
  from batch [THEN conjunct2, THEN conjunct2, THEN conjunct1, THEN mp, OF t(1)]
  have 2: "LogisticRegression_predict ?m (is_tensor ?t)
      = LogisticRegression_predict ?m (not_tensor ?v)"
    by simp
  have "\<exists>r. LogisticRegression_predict ?m (not_tensor ?a) = Inr r"
    using batch [THEN conjunct2, THEN conjunct2, THEN conjunct2, THEN conjunct1] m by simp
  then obtain r' where r': "LogisticRegression_predict ?m (not_tensor ?a) = Inr r'" ..
  from LogisticRegression_predict_squeeze
    [where m = ?m and t = ?t and ty = Float64 and a = ?a and r' = r',
     THEN conjunct2, THEN conjunct2, THEN conjunct2, THEN conjunct2, THEN conjunct2,
     THEN conjunct2, THEN conjunct1, THEN mp, OF r']
  have "nd_shape r' = [1, 2]" by (simp add: m)
  with r' have 3: "\<exists>r. LogisticRegression_predict ?m (not_tensor ?a) = Inr r \<and> nd_shape r = [1, 2]"
    by blast
  have 4: "LogisticRegression_predict ?m (is_tensor ?t) = predict_as_specified ?m (is_tensor ?t)"
    by (rule batch [THEN conjunct2, THEN conjunct2, THEN conjunct2, THEN conjunct2,
      THEN conjunct2, THEN conjunct2, THEN conjunct2, THEN conjunct1, THEN mp]) simp
  have 5: "LogisticRegression_predict ?m (not_tensor ?v) = predict_as_specified ?m (not_tensor ?v)"
    by (rule single [THEN conjunct2, THEN conjunct2, THEN conjunct2, THEN conjunct2,
      THEN conjunct2, THEN conjunct2, THEN conjunct2, THEN conjunct2, THEN mp]) simp
  from 1 2 3 4 5 show ?thesis by (intro conjI)
qed

text \<open>
  C2 as stated fails. A batch of two one-feature examples, a tensor of shape \<open>(2, 1)\<close>,
  has no leading dimension of size 1; the code removes its last dimension and \<open>forward\<close>
  raises, where the specification's \<open>predict\<close> returns two rows of probabilities. An
  array of shape \<open>(1, 1)\<close> keeps its leading dimension in the code and loses it in the
  specification's \<open>predict\<close>.
\<close>

theorem predict_squeeze_counterexample:
  "LogisticRegression_predict
     \<lparr> input_dim = 1, n_class = 2,
       linear = \<lparr> in_features = 1, out_features = 2,
                  weight = Tensor Float32 [2, 1] [1, 1], bias = Tensor Float32 [2] [0, 0] \<rparr> \<rparr>
     (is_tensor (Tensor Float32 [2, 1] [3, 4]))
   = Inl (RuntimeError_shape [2] 1)
   \<and> predict_as_specified
     \<lparr> input_dim = 1, n_class = 2,
       linear = \<lparr> in_features = 1, out_features = 2,
                  weight = Tensor Float32 [2, 1] [1, 1], bias = Tensor Float32 [2] [0, 0] \<rparr> \<rparr>
     (is_tensor (Tensor Float32 [2, 1] [3, 4]))
   = Inr (NdArray Float32 [2, 2] [exp 3 / (exp 3 + exp 3), exp 3 / (exp 3 + exp 3),
                                  exp 4 / (exp 4 + exp 4), exp 4 / (exp 4 + exp 4)])
   \<and> LogisticRegression_predict
     \<lparr> input_dim = 1, n_class = 2,
       linear = \<lparr> in_features = 1, out_features = 2,
                  weight = Tensor Float32 [2, 1] [1, 1], bias = Tensor Float32 [2] [0, 0] \<rparr> \<rparr>
     (not_tensor (NdArray Float64 [1, 1] [3]))
   = Inr (NdArray Float32 [1, 2] [exp 3 / (exp 3 + exp 3), exp 3 / (exp 3 + exp 3)])
   \<and> predict_as_specified
     \<lparr> input_dim = 1, n_class = 2,
       linear = \<lparr> in_features = 1, out_features = 2,
                  weight = Tensor Float32 [2, 1] [1, 1], bias = Tensor Float32 [2] [0, 0] \<rparr> \<rparr>
     (not_tensor (NdArray Float64 [1, 1] [3]))
   = Inr (NdArray Float32 [2] [exp 3 / (exp 3 + exp 3), exp 3 / (exp 3 + exp 3)])"
  by (simp add: LogisticRegression_predict_def predict_as_specified_def squeeze_def
      squeeze_leading_def LogisticRegression_forward_def Linear_forward_def from_numpy_def
      float_def numpy_def softmax_def softmax_row_def tensor_rows_def last_dim_def
      affine_row_def dot_def rows_1 rows_2)

text \<open>
  C4, as the code has it. \<open>predict\<close> and \<open>predict_proba\<close> of the network return the same
  on every argument that is not a tensor and on every tensor with no dimension of size
  1; on any tensor, \<open>predict\<close> returns what \<open>predict_proba\<close> returns on the squeezed
  tensor.
\<close>

theorem predict_is_predict_proba_after_squeeze:
  "ArtificialNeuralNetwork_predict m (not_tensor a) = predict_proba m (not_tensor a)
   \<and> ArtificialNeuralNetwork_predict m (is_tensor t) = predict_proba m (is_tensor (squeeze t))
   \<and> (1 \<notin> set (shape t) \<longrightarrow>
        ArtificialNeuralNetwork_predict m (is_tensor t) = predict_proba m (is_tensor t))"
  by (simp add: ArtificialNeuralNetwork_predict_def predict_proba_def squeeze_no_ones)

theorem predict_is_predict_proba_after_squeeze_witness:
  "1 \<notin> set (shape (Tensor Float32 [3, 2] [1, 2, 3, 4, 5, 6]))
   \<and> ArtificialNeuralNetwork_predict
        \<lparr> network = [Lin \<lparr> in_features = 2, out_features = 2,
                            weight = Tensor Float32 [2, 2] [1, 0, 0, 1],
                            bias = Tensor Float32 [2] [0, 0] \<rparr>] \<rparr>
        (is_tensor (Tensor Float32 [3, 2] [1, 2, 3, 4, 5, 6]))
     = predict_proba
        \<lparr> network = [Lin \<lparr> in_features = 2, out_features = 2,
                            weight = Tensor Float32 [2, 2] [1, 0, 0, 1],
                            bias = Tensor Float32 [2] [0, 0] \<rparr>] \<rparr>
        (is_tensor (Tensor Float32 [3, 2] [1, 2, 3, 4, 5, 6]))"
proof -
  have a: "1 \<notin> set (shape (Tensor Float32 [3, 2] [1, 2, 3, 4, 5, 6]))" by simp
  from a predict_is_predict_proba_after_squeeze
    [of "\<lparr> network = [Lin \<lparr> in_features = 2, out_features = 2,
                            weight = Tensor Float32 [2, 2] [1, 0, 0, 1],
                            bias = Tensor Float32 [2] [0, 0] \<rparr>] \<rparr>"
        "NdArray Float64 [] []" "Tensor Float32 [3, 2] [1, 2, 3, 4, 5, 6]"]
  show ?thesis by blast
qed

text \<open>
  C4 as stated fails on a batch of one example, a tensor of shape \<open>(1, 2)\<close>: \<open>predict\<close>
  returns an array of shape \<open>(2)\<close> and \<open>predict_proba\<close> one of shape \<open>(1, 2)\<close>.
\<close>

theorem predict_vs_predict_proba_counterexample:
  "ArtificialNeuralNetwork_predict
     \<lparr> network = [Lin \<lparr> in_features = 2, out_features = 2,
                         weight = Tensor Float32 [2, 2] [1, 0, 0, 1],
                         bias = Tensor Float32 [2] [0, 0] \<rparr>] \<rparr>
     (is_tensor (Tensor Float32 [1, 2] [3, 4]))
   = Inr (NdArray Float32 [2] [exp 3 / (exp 3 + exp 4), exp 4 / (exp 3 + exp 4)])
   \<and> predict_proba
     \<lparr> network = [Lin \<lparr> in_features = 2, out_features = 2,
                         weight = Tensor Float32 [2, 2] [1, 0, 0, 1],
                         bias = Tensor Float32 [2] [0, 0] \<rparr>] \<rparr>
     (is_tensor (Tensor Float32 [1, 2] [3, 4]))
   = Inr (NdArray Float32 [1, 2] [exp 3 / (exp 3 + exp 4), exp 4 / (exp 3 + exp 4)])"
  by (simp add: ArtificialNeuralNetwork_predict_def predict_proba_def squeeze_def float_def
      ArtificialNeuralNetwork_forward_def Linear_forward_def
      numpy_def softmax_def softmax_row_def tensor_rows_def last_dim_def affine_row_def dot_def
      rows_1 rows_2)

section \<open>The loader\<close>

lemma map_of_dataverse_ids_None:
  "ml_model \<noteq> ''lr'' \<Longrightarrow> ml_model \<noteq> ''ann'' \<Longrightarrow> map_of dataverse_ids ml_model = None"
  by (simp add: dataverse_ids_def)

lemma map_of_dataverse_ids_Some:
  assumes "map_of dataverse_ids ml_model = Some ids"
  shows "(ml_model = ''lr'' \<or> ml_model = ''ann'')
       \<and> map fst ids = [''adult'', ''compas'', ''gaussian'', ''german'', ''gmsc'', ''heart'',
                         ''heloc'', ''pima'']"
  using assms by (auto simp: dataverse_ids_def split: if_splits)

lemma registered_names:
  assumes "map_of dataverse_ids ml_model = Some ids"
  shows "map_of ids data_name = None \<longleftrightarrow>
         data_name \<notin> set [''adult'', ''compas'', ''gaussian'', ''german'', ''gmsc'', ''heart'',
                           ''heloc'', ''pima'']"
  using map_of_dataverse_ids_Some [OF assms] by (simp only: map_of_eq_None_iff set_map [symmetric])

lemma known_kind:
  "ml_model = ''lr'' \<or> ml_model = ''ann'' \<Longrightarrow> \<exists>ids. map_of dataverse_ids ml_model = Some ids"
  by (auto simp: dataverse_ids_def)

lemma first_shape_1_error:
  "first_shape_1 sd = Inl e \<Longrightarrow> e = StopIteration \<or> e = IndexError"
  by (auto simp: first_shape_1_def split: list.splits prod.splits)

lemma init_loop_error:
  "init_loop act inits hs acc prev = Inl e \<Longrightarrow> e = KeyError act"
  by (induction hs arbitrary: acc prev) (auto split: option.splits)

lemma ArtificialNeuralNetwork_init_error:
  "ArtificialNeuralNetwork_init d hs k act inits = Inl e \<Longrightarrow> e = KeyError act"
  by (auto simp: ArtificialNeuralNetwork_init_def split: sum.splits prod.splits
      dest: init_loop_error)

lemma construct_error:
  "construct c ml_model n = Inl e \<Longrightarrow> e = KeyError ''relu'' \<or> e = UnboundLocalError"
  by (auto simp: construct_def split: if_splits sum.splits
      dest: ArtificialNeuralNetwork_init_error)

lemma load_Linear_error: "load_Linear sd p l = Inl e \<Longrightarrow> e = RuntimeError_state_dict"
  by (auto simp: load_Linear_def load_parameter_def split: sum.splits option.splits if_splits)

lemma load_modules_error: "load_modules sd p ms = Inl e \<Longrightarrow> e = RuntimeError_state_dict"
  by (induction sd p ms rule: load_modules.induct)
    (auto split: sum.splits dest: load_Linear_error)

lemma load_state_dict_error: "load_state_dict m sd = Inl e \<Longrightarrow> e = RuntimeError_state_dict"
  by (auto simp: load_state_dict_def split: if_splits model.splits sum.splits
      dest: load_Linear_error load_modules_error)

lemma LoadModel_dataset_error_only:
  assumes "fst (LoadModel c data_name ml_model pretrained fs) = Inl (NotImplementedError_dataset s)"
  shows "pretrained \<and> (ml_model = ''lr'' \<or> ml_model = ''ann'')
       \<and> data_name \<notin> set [''adult'', ''compas'', ''gaussian'', ''german'', ''gmsc'', ''heart'',
                           ''heloc'', ''pima'']"
proof -
  from assms have p: pretrained
    by (auto simp: LoadModel_def split: if_splits)
  from assms p obtain ids where ids: "map_of dataverse_ids ml_model = Some ids"
    by (cases "map_of dataverse_ids ml_model") (auto simp: LoadModel_def Let_def)
  have "map_of ids data_name = None"
  proof (rule ccontr)
    assume "map_of ids data_name \<noteq> None"
    then obtain ident where ident: "map_of ids data_name = Some ident" by auto
    from assms show False
      unfolding LoadModel_def Let_def
      by (auto simp: p ids ident split: sum.splits
          dest: first_shape_1_error construct_error load_state_dict_error)
  qed
  with p map_of_dataverse_ids_Some [OF ids] registered_names [OF ids, of data_name]
  show ?thesis by blast
qed

lemma upper_lr: "upper ''lr'' = ''LR''"
  by code_simp

lemma upper_ann: "upper ''ann'' = ''ANN''"
  by code_simp

text \<open>
  C6. With \<open>pretrained = False\<close>, \<open>LoadModel\<close> raises the \<open>NotImplementedError\<close> for
  training, whatever the data set and the model kind, registered or not: no model is
  returned, and the file system is left as it was.
\<close>

theorem LoadModel_without_pretrained:
  "LoadModel c data_name ml_model False fs = (Inl NotImplementedError_training, fs)"
  by (simp add: LoadModel_def)

text \<open>
  C7, as the code has it. With \<open>pretrained = True\<close> and a model kind that is \<open>lr\<close> or
  \<open>ann\<close>, a data set name that is not registered makes \<open>LoadModel\<close> raise the
  \<open>NotImplementedError\<close> for the data set; no model is returned and nothing but the
  model directory is created.
\<close>

theorem LoadModel_unsupported_dataset:
  assumes "ml_model = ''lr'' \<or> ml_model = ''ann''"
    and "data_name \<notin> set [''adult'', ''compas'', ''gaussian'', ''german'', ''gmsc'', ''heart'',
                           ''heloc'', ''pima'']"
  shows "LoadModel c data_name ml_model True fs =
           (Inl (NotImplementedError_dataset (upper ml_model)),
            fs\<lparr>dirs := insert ''./models/pretrained/'' (dirs fs)\<rparr>)"
proof -
  from known_kind [OF assms(1)] obtain ids where ids: "map_of dataverse_ids ml_model = Some ids" ..
  with assms(2) registered_names [OF ids, of data_name] have "map_of ids data_name = None"
    by blast
  with ids show ?thesis by (simp add: LoadModel_def Let_def)
qed

theorem LoadModel_unsupported_dataset_witness:
  "(''lr'' = ''lr'' \<or> ''lr'' = ''ann'')
   \<and> ''not-a-real-dataset'' \<notin> set [''adult'', ''compas'', ''gaussian'', ''german'', ''gmsc'',
                                     ''heart'', ''heloc'', ''pima'']
   \<and> (\<forall>c fs. LoadModel c ''not-a-real-dataset'' ''lr'' True fs =
           (Inl (NotImplementedError_dataset ''LR''),
            fs\<lparr>dirs := insert ''./models/pretrained/'' (dirs fs)\<rparr>))"
proof -
  have a: "''lr'' = ''lr'' \<or> ''lr'' = ''ann''" by simp
  have b: "''not-a-real-dataset'' \<notin> set [''adult'', ''compas'', ''gaussian'', ''german'',
      ''gmsc'', ''heart'', ''heloc'', ''pima'']" by simp
  from a b LoadModel_unsupported_dataset [OF a b] show ?thesis
    by (simp only: upper_lr) simp
qed

text \<open>
  C7 as stated fails for a model kind outside the registry: the pair \<open>(svm, adult)\<close> is
  not registered, and \<open>LoadModel\<close> raises \<open>KeyError\<close>, not the \<open>NotImplementedError\<close> for
  the data set.
\<close>

theorem LoadModel_unknown_kind_counterexample:
  "\<forall>c fs. fst (LoadModel c ''adult'' ''svm'' True fs) = Inl (KeyError ''svm'')"
  by (simp add: LoadModel_def Let_def dataverse_ids_def)

text \<open>
  C10. With \<open>pretrained = True\<close> and a model kind that is neither \<open>lr\<close> nor \<open>ann\<close>,
  \<open>LoadModel\<close> raises \<open>KeyError\<close> for the model kind, from the registry lookup that
  the membership test starts with, and never the \<open>NotImplementedError\<close> for the data
  set. That error is raised only with \<open>pretrained = True\<close>, a model kind \<open>lr\<close> or \<open>ann\<close>
  and a data set name that is not registered.
\<close>

theorem LoadModel_unknown_kind:
  "(ml_model \<noteq> ''lr'' \<and> ml_model \<noteq> ''ann'' \<longrightarrow>
      LoadModel c data_name ml_model True fs =
        (Inl (KeyError ml_model), fs\<lparr>dirs := insert ''./models/pretrained/'' (dirs fs)\<rparr>)
      \<and> fst (LoadModel c data_name ml_model pretrained fs) \<noteq> Inl (NotImplementedError_dataset s))
   \<and> (fst (LoadModel c' data_name' ml_model' pretrained' fs') = Inl (NotImplementedError_dataset s')
        \<longrightarrow> pretrained' \<and> (ml_model' = ''lr'' \<or> ml_model' = ''ann'')
          \<and> data_name' \<notin> set [''adult'', ''compas'', ''gaussian'', ''german'', ''gmsc'',
                                ''heart'', ''heloc'', ''pima''])"
proof (intro conjI impI)
  assume k: "ml_model \<noteq> ''lr'' \<and> ml_model \<noteq> ''ann''"
  then have "map_of dataverse_ids ml_model = None"
    by (simp add: map_of_dataverse_ids_None)
  then show "LoadModel c data_name ml_model True fs =
        (Inl (KeyError ml_model), fs\<lparr>dirs := insert ''./models/pretrained/'' (dirs fs)\<rparr>)"
    by (simp add: LoadModel_def Let_def)
  from k LoadModel_dataset_error_only [of c data_name ml_model pretrained fs s]
  show "fst (LoadModel c data_name ml_model pretrained fs) \<noteq> Inl (NotImplementedError_dataset s)"
    by blast
next
  assume "fst (LoadModel c' data_name' ml_model' pretrained' fs') = Inl (NotImplementedError_dataset s')"
  from LoadModel_dataset_error_only [OF this]
  show "pretrained'" and "ml_model' = ''lr'' \<or> ml_model' = ''ann''"
    and "data_name' \<notin> set [''adult'', ''compas'', ''gaussian'', ''german'', ''gmsc'',
                                ''heart'', ''heloc'', ''pima'']"
    by blast+
qed

theorem LoadModel_unknown_kind_witness:
  "''mlp'' \<noteq> ''lr'' \<and> ''mlp'' \<noteq> ''ann''
   \<and> (\<forall>c fs. LoadModel c ''heloc'' ''mlp'' True fs =
         (Inl (KeyError ''mlp''), fs\<lparr>dirs := insert ''./models/pretrained/'' (dirs fs)\<rparr>))
   \<and> (\<forall>c fs. fst (LoadModel c ''mnist'' ''ann'' True fs) = Inl (NotImplementedError_dataset ''ANN''))
   \<and> ''mnist'' \<notin> set [''adult'', ''compas'', ''gaussian'', ''german'', ''gmsc'',
                       ''heart'', ''heloc'', ''pima'']"
proof -
  have k: "''mlp'' \<noteq> ''lr'' \<and> ''mlp'' \<noteq> ''ann''" by simp
  have e: "fst (LoadModel c ''mnist'' ''ann'' True fs) = Inl (NotImplementedError_dataset ''ANN'')"
    for c fs
    by (simp add: LoadModel_def Let_def dataverse_ids_def upper_ann)
  from k e LoadModel_unknown_kind
    [of "''mlp''" _ "''heloc''" _ _ _ _ "''mnist''" "''ann''" True _ "''ANN''"]
  show ?thesis by blast
qed

end
